theory Spec2Isabelle
  imports Complex_Main "HOL-Library.Word"
begin

section \<open>JavaScript values\<close>

text \<open>
  A JavaScript string is a sequence of 16-bit code units. Literals of the source are
  written \<open>js ''...''\<close>; every literal of the source is ASCII.
\<close>

type_synonym jsstring = "16 word list"

definition js :: "string \<Rightarrow> jsstring" where
  "js s = map (\<lambda>c. of_nat (of_char c)) s"

text \<open>
  A Number is NaN, an infinity or a finite value. A finite double is a rational number,
  so \<open>Finite\<close> carries the exact mathematical value (both zeros are \<open>Finite 0\<close>:
  the code below never tells them apart).
\<close>

datatype jsnum = NaN | PosInf | NegInf | Finite rat

text \<open>
  The values \<open>response.json()\<close> can produce, and \<open>undefined\<close> for a property that is
  not there. An object is the list of its own properties in creation order; the first
  entry of a name is the property.
\<close>

datatype jsval =
    JUndefined
  | JNull
  | JBool bool
  | JNum jsnum
  | JStr jsstring
  | JArr "jsval list"
  | JObj "(jsstring \<times> jsval) list"

datatype js_error =
    TypeError
  | URIError
  | SyntaxError
  | Error jsstring
  | ReactChildError

text \<open>ToBoolean: what \<open>x ? a : b\<close> and \<open>x || y\<close> test.\<close>

fun truthy :: "jsval \<Rightarrow> bool" where
  "truthy JUndefined = False"
| "truthy JNull = False"
| "truthy (JBool b) = b"
| "truthy (JNum NaN) = False"
| "truthy (JNum (Finite x)) = (x \<noteq> 0)"
| "truthy (JNum _) = True"
| "truthy (JStr s) = (s \<noteq> [])"
| "truthy (JArr _) = True"
| "truthy (JObj _) = True"

definition js_or :: "jsval \<Rightarrow> jsval \<Rightarrow> jsval" where
  "js_or a b = (if truthy a then a else b)"

text \<open>
  Property read \<open>v.name\<close>, for a name that no built-in prototype defines (the source
  reads \<open>response\<close>, \<open>Error\<close>, \<open>results\<close> and the fields of a movie): a TypeError on
  \<open>null\<close> and \<open>undefined\<close>, the own property of an object, \<open>undefined\<close> otherwise.
\<close>

fun get_prop :: "jsval \<Rightarrow> jsstring \<Rightarrow> js_error + jsval" where
  "get_prop JUndefined name = Inl TypeError"
| "get_prop JNull name = Inl TypeError"
| "get_prop (JObj fields) name =
     Inr (case map_of fields name of None \<Rightarrow> JUndefined | Some v \<Rightarrow> v)"
| "get_prop _ name = Inr JUndefined"

text \<open>
  Number::toString of a finite non-zero value needs the shortest digits that round-trip
  through binary64; it is a parameter \<open>nts\<close> of everything that may print such a number.
\<close>

definition number_to_string :: "(rat \<Rightarrow> jsstring) \<Rightarrow> jsnum \<Rightarrow> jsstring" where
  "number_to_string nts n =
     (case n of
        NaN \<Rightarrow> js ''NaN''
      | PosInf \<Rightarrow> js ''Infinity''
      | NegInf \<Rightarrow> js ''-Infinity''
      | Finite x \<Rightarrow> if x = 0 then js ''0'' else nts x)"

text \<open>
  ToString of a value. An array prints as its elements joined by commas
  (Array.prototype.join: \<open>null\<close> and \<open>undefined\<close> elements print as nothing). An object
  made by the JSON parser has no callable property of its own, so an own \<open>toString\<close>
  hides Object.prototype.toString and the conversion throws; otherwise it prints as
  \<open>[object Object]\<close>.
\<close>

fun to_string :: "(rat \<Rightarrow> jsstring) \<Rightarrow> jsval \<Rightarrow> js_error + jsstring"
  and join :: "(rat \<Rightarrow> jsstring) \<Rightarrow> jsval list \<Rightarrow> js_error + jsstring" where
  "to_string nts JUndefined = Inr (js ''undefined'')"
| "to_string nts JNull = Inr (js ''null'')"
| "to_string nts (JBool b) = Inr (if b then js ''true'' else js ''false'')"
| "to_string nts (JNum n) = Inr (number_to_string nts n)"
| "to_string nts (JStr s) = Inr s"
| "to_string nts (JArr xs) = join nts xs"
| "to_string nts (JObj fields) =
     (if js ''toString'' \<in> fst ` set fields then Inl TypeError
      else Inr (js ''[object Object]''))"
| "join nts [] = Inr []"
| "join nts (x # xs) =
     (case (if x = JUndefined \<or> x = JNull then Inr [] else to_string nts x) of
        Inl e \<Rightarrow> Inl e
      | Inr s \<Rightarrow>
          (if xs = [] then Inr s
           else (case join nts xs of Inl e \<Rightarrow> Inl e | Inr r \<Rightarrow> Inr (s @ js '','' @ r))))"

text \<open>
  The comparison \<open>x == 'False'\<close> (IsLooselyEqual with the String \<open>'False'\<close> on the
  right). \<open>null\<close> and \<open>undefined\<close> equal only each other. A Number or Boolean is
  compared with ToNumber('False'), which is NaN, so the answer is false. A String is
  compared code unit by code unit. An array or object is first converted by ToPrimitive,
  which for these values gives what ToString gives, or throws as ToString does.
\<close>

fun loose_eq_False :: "(rat \<Rightarrow> jsstring) \<Rightarrow> jsval \<Rightarrow> js_error + bool" where
  "loose_eq_False nts JUndefined = Inr False"
| "loose_eq_False nts JNull = Inr False"
| "loose_eq_False nts (JBool b) = Inr False"
| "loose_eq_False nts (JNum n) = Inr False"
| "loose_eq_False nts (JStr t) = Inr (t = js ''False'')"
| "loose_eq_False nts v =
     (case to_string nts v of Inl e \<Rightarrow> Inl e | Inr t \<Rightarrow> Inr (t = js ''False''))"

section \<open>encodeURIComponent\<close>

text \<open>
  The built-in follows ECMA-262 (Encode): a code unit of the unreserved set (ASCII
  letters, digits and \<open>- _ . ! ~ * ' ( )\<close>) is copied; any other code point is written as
  the percent-escaped octets of its UTF-8 form, in upper-case hexadecimal; a surrogate
  code unit that is not part of a pair throws URIError.
\<close>

definition unreserved :: "16 word \<Rightarrow> bool" where
  "unreserved c =
     ((0x41 \<le> c \<and> c \<le> 0x5A) \<or> (0x61 \<le> c \<and> c \<le> 0x7A) \<or> (0x30 \<le> c \<and> c \<le> 0x39)
      \<or> c \<in> set (js ''-_.!~*'' @ [0x27] @ js ''()''))"

definition leading_surrogate :: "16 word \<Rightarrow> bool" where
  "leading_surrogate c = (0xD800 \<le> c \<and> c \<le> 0xDBFF)"

definition trailing_surrogate :: "16 word \<Rightarrow> bool" where
  "trailing_surrogate c = (0xDC00 \<le> c \<and> c \<le> 0xDFFF)"

definition surrogate_pair_to_code_point :: "16 word \<Rightarrow> 16 word \<Rightarrow> int" where
  "surrogate_pair_to_code_point lead trail =
     (uint lead - 0xD800) * 0x400 + (uint trail - 0xDC00) + 0x10000"

definition utf8 :: "int \<Rightarrow> int list" where
  "utf8 cp =
     (if cp < 0x80 then [cp]
      else if cp < 0x800 then [0xC0 + cp div 64, 0x80 + cp mod 64]
      else if cp < 0x10000 then
        [0xE0 + cp div 4096, 0x80 + cp div 64 mod 64, 0x80 + cp mod 64]
      else
        [0xF0 + cp div 262144, 0x80 + cp div 4096 mod 64, 0x80 + cp div 64 mod 64,
         0x80 + cp mod 64])"

definition hex_digit :: "int \<Rightarrow> 16 word" where
  "hex_digit d = (if d < 10 then of_int (0x30 + d) else of_int (0x41 + (d - 10)))"

definition percent_escape :: "int \<Rightarrow> jsstring" where
  "percent_escape octet = [0x25, hex_digit (octet div 16), hex_digit (octet mod 16)]"

definition escape_code_point :: "int \<Rightarrow> jsstring" where
  "escape_code_point cp = concat (map percent_escape (utf8 cp))"

fun encodeURIComponent :: "jsstring \<Rightarrow> js_error + jsstring" where
  "encodeURIComponent [] = Inr []"
| "encodeURIComponent (c # cs) =
     (if unreserved c then
        (case encodeURIComponent cs of Inl e \<Rightarrow> Inl e | Inr r \<Rightarrow> Inr (c # r))
      else if \<not> leading_surrogate c \<and> \<not> trailing_surrogate c then
        (case encodeURIComponent cs of
           Inl e \<Rightarrow> Inl e
         | Inr r \<Rightarrow> Inr (escape_code_point (uint c) @ r))
      else if trailing_surrogate c then Inl URIError
      else
        (case cs of
           [] \<Rightarrow> Inl URIError
         | d # ds \<Rightarrow>
             if \<not> trailing_surrogate d then Inl URIError
             else
               (case encodeURIComponent ds of
                  Inl e \<Rightarrow> Inl e
                | Inr r \<Rightarrow> Inr (escape_code_point (surrogate_pair_to_code_point c d) @ r))))"

section \<open>The page component (App.jsx)\<close>

subsection \<open>Configuration\<close>

definition API_BASE_URL :: jsstring where
  "API_BASE_URL = js ''https://api.themoviedb.org/3''"

text \<open>
  \<open>API_KEY\<close> comes from the build environment: \<open>None\<close> when the variable is not set,
  and the template literal then prints \<open>undefined\<close>.
\<close>

record request_init =
  http_method :: jsstring
  headers :: "(jsstring \<times> jsstring) list"

definition API_OPTIONS :: "jsstring option \<Rightarrow> request_init" where
  "API_OPTIONS API_KEY =
     \<lparr> http_method = js ''GET'',
       headers =
         [(js ''accept'', js ''application/json''),
          (js ''Authorization'',
           js ''Bearer '' @ (case API_KEY of None \<Rightarrow> js ''undefined'' | Some k \<Rightarrow> k))] \<rparr>"

subsection \<open>The network\<close>

text \<open>
  An awaited promise resolves with a value, rejects with an error, or stays pending for
  ever (no timeout is configured). A response has its status and the promise that
  \<open>response.json()\<close> returns; \<open>response.ok\<close> is true for the statuses 200 to 299.
  The network is a function from the request to the promise \<open>fetch\<close> returns.
\<close>

datatype 'a promise = Resolves 'a | Rejects js_error | Pending

record response =
  status :: nat
  json :: "jsval promise"

definition ok :: "response \<Rightarrow> bool" where
  "ok r = (200 \<le> status r \<and> status r \<le> 299)"

type_synonym network = "jsstring \<Rightarrow> request_init \<Rightarrow> response promise"

subsection \<open>State and effects\<close>

text \<open>
  The state variables of \<open>App\<close>: four \<open>useState\<close> cells and the value the debounce hook
  exposes. \<open>errorMessage\<close> and \<open>movieList\<close> hold whatever value their setter is given.
  The hook \<open>useDebounce\<close> is imported from the package \<open>use-debounce\<close>; the source
  only calls it, with a delay of 500, so \<open>debouncedSearchTerm\<close> is a cell that
  \<open>fetchMovies\<close> is called with and has no setter for.
\<close>

record app_state =
  searchTerm :: jsstring
  errorMessage :: jsval
  isLoading :: bool
  movieList :: jsval
  debouncedSearchTerm :: jsstring

definition initial_state :: app_state where
  "initial_state =
     \<lparr> searchTerm = [], errorMessage = JStr [], isLoading = False, movieList = JArr [],
       debouncedSearchTerm = [] \<rparr>"

text \<open>
  What code inside \<open>App\<close> can do to the outside: calls of the four state setters that
  are in scope there, a request, and console messages (the parsed body; the caught error
  behind the text \<open>Error fetching movies: \<close>). A call of \<open>fetchMovies\<close> is the sequence
  of these effects in the order they happen. The debounced text has no setter: the hook
  changes it, and only after the search text has changed.
\<close>

datatype event =
    SetSearchTerm jsstring
  | SetIsLoading bool
  | SetErrorMessage jsval
  | SetMovieList jsval
  | Fetch jsstring request_init
  | ConsoleLogData jsval
  | ConsoleLogError js_error

fun apply_event :: "app_state \<Rightarrow> event \<Rightarrow> app_state" where
  "apply_event s (SetSearchTerm t) = s\<lparr>searchTerm := t\<rparr>"
| "apply_event s (SetIsLoading b) = s\<lparr>isLoading := b\<rparr>"
| "apply_event s (SetErrorMessage m) = s\<lparr>errorMessage := m\<rparr>"
| "apply_event s (SetMovieList l) = s\<lparr>movieList := l\<rparr>"
| "apply_event s (Fetch url init) = s"
| "apply_event s (ConsoleLogData d) = s"
| "apply_event s (ConsoleLogError e) = s"

definition apply_events :: "app_state \<Rightarrow> event list \<Rightarrow> app_state" where
  "apply_events s evs = foldl apply_event s evs"

subsection \<open>fetchMovies\<close>

text \<open>How a block of statements ends: normally (also by \<open>return\<close>), by a throw, or never.\<close>

datatype completion = Completed | Thrown js_error | Suspended

text \<open>Step 3 of the source: the endpoint, or the error \<open>encodeURIComponent\<close> throws.\<close>

definition endpoint :: "jsstring \<Rightarrow> js_error + jsstring" where
  "endpoint query =
     (if query \<noteq> [] then
        (case encodeURIComponent query of
           Inl e \<Rightarrow> Inl e
         | Inr q \<Rightarrow> Inr (API_BASE_URL @ js ''/search/movie?query='' @ q))
      else Inr (API_BASE_URL @ js ''/discover/movie?sort_by=popularity.desc''))"

text \<open>Step 8: the test \<open>data.response == 'False'\<close>.\<close>

definition inline_failure :: "(rat \<Rightarrow> jsstring) \<Rightarrow> jsval \<Rightarrow> js_error + bool" where
  "inline_failure nts data =
     (case get_prop data (js ''response'') of
        Inl e \<Rightarrow> Inl e
      | Inr flag \<Rightarrow> loose_eq_False nts flag)"

text \<open>Steps 8 and 9: what is done with the parsed body.\<close>

definition handle_data :: "(rat \<Rightarrow> jsstring) \<Rightarrow> jsval \<Rightarrow> event list \<times> completion" where
  "handle_data nts data =
     (case inline_failure nts data of
        Inl e \<Rightarrow> ([], Thrown e)
      | Inr True \<Rightarrow>
          (case get_prop data (js ''Error'') of
             Inl e \<Rightarrow> ([], Thrown e)
           | Inr err \<Rightarrow>
               ([SetErrorMessage (js_or err (JStr (js ''Failed to fetch movies''))),
                 SetMovieList (JArr [])], Completed))
      | Inr False \<Rightarrow>
          (case get_prop data (js ''results'') of
             Inl e \<Rightarrow> ([], Thrown e)
           | Inr results \<Rightarrow> ([SetMovieList (js_or results (JArr []))], Completed)))"

text \<open>The body of the \<open>try\<close> block, steps 3 to 9.\<close>

definition try_block ::
  "(rat \<Rightarrow> jsstring) \<Rightarrow> jsstring option \<Rightarrow> network \<Rightarrow> jsstring \<Rightarrow> event list \<times> completion"
where
  "try_block nts API_KEY net query =
     (case endpoint query of
        Inl e \<Rightarrow> ([], Thrown e)
      | Inr url \<Rightarrow>
          (case net url (API_OPTIONS API_KEY) of
             Pending \<Rightarrow> ([Fetch url (API_OPTIONS API_KEY)], Suspended)
           | Rejects e \<Rightarrow> ([Fetch url (API_OPTIONS API_KEY)], Thrown e)
           | Resolves resp \<Rightarrow>
               if \<not> ok resp then
                 ([Fetch url (API_OPTIONS API_KEY)], Thrown (Error (js ''failed to get movies'')))
               else
                 (case json resp of
                    Pending \<Rightarrow> ([Fetch url (API_OPTIONS API_KEY)], Suspended)
                  | Rejects e \<Rightarrow> ([Fetch url (API_OPTIONS API_KEY)], Thrown e)
                  | Resolves data \<Rightarrow>
                      (let (evs, c) = handle_data nts data
                       in (Fetch url (API_OPTIONS API_KEY) # ConsoleLogData data # evs, c)))))"

text \<open>The \<open>catch\<close> and \<open>finally\<close> clauses.\<close>

definition catch_block :: "completion \<Rightarrow> event list" where
  "catch_block c =
     (case c of
        Thrown e \<Rightarrow>
          [ConsoleLogError e,
           SetErrorMessage (JStr (js ''Error fetching movies. Please Try Again.''))]
      | _ \<Rightarrow> [])"

definition finally_block :: "completion \<Rightarrow> event list" where
  "finally_block c = (case c of Suspended \<Rightarrow> [] | _ \<Rightarrow> [SetIsLoading False])"

text \<open>The default parameter \<open>query = ''\<close>: \<open>None\<close> is the call without an argument.\<close>

definition query_or_default :: "jsstring option \<Rightarrow> jsstring" where
  "query_or_default query_arg = (case query_arg of None \<Rightarrow> [] | Some q \<Rightarrow> q)"

text \<open>
  \<open>fetchMovies\<close>: the result is the sequence of effects, and whether the call settles.
\<close>

definition fetchMovies ::
  "(rat \<Rightarrow> jsstring) \<Rightarrow> jsstring option \<Rightarrow> network \<Rightarrow> jsstring option \<Rightarrow> event list \<times> bool"
where
  "fetchMovies nts API_KEY net query_arg =
     (let (evs, c) = try_block nts API_KEY net (query_or_default query_arg)
      in ([SetIsLoading True, SetErrorMessage (JStr [])] @ evs @ catch_block c @ finally_block c,
          c \<noteq> Suspended))"

text \<open>The state once the effects of one call have been applied to \<open>s\<close>.\<close>

definition after_fetchMovies ::
  "(rat \<Rightarrow> jsstring) \<Rightarrow> jsstring option \<Rightarrow> network \<Rightarrow> jsstring option \<Rightarrow> app_state \<Rightarrow> app_state"
where
  "after_fetchMovies nts API_KEY net query_arg s =
     apply_events s (fst (fetchMovies nts API_KEY net query_arg))"

definition requests :: "event list \<Rightarrow> jsstring list" where
  "requests evs = concat (map (\<lambda>e. case e of Fetch url init \<Rightarrow> [url] | _ \<Rightarrow> []) evs)"

section \<open>The result card (MovieCard.jsx)\<close>

text \<open>The decimal digits of a natural number, without leading zeros.\<close>

fun decimal_digits :: "nat \<Rightarrow> jsstring" where
  "decimal_digits n =
     (if n < 10 then [of_nat (0x30 + n)]
      else decimal_digits (n div 10) @ [of_nat (0x30 + n mod 10)])"

declare decimal_digits.simps [simp del]

text \<open>
  Number.prototype.toFixed (ECMA-262) for a digit count from 0 to 100; the source passes 1.
  Of the integers \<open>n\<close> with \<open>n / 10^f\<close> closest to the value, the larger is taken.
\<close>

definition toFixed :: "(rat \<Rightarrow> jsstring) \<Rightarrow> jsnum \<Rightarrow> nat \<Rightarrow> jsstring" where
  "toFixed nts x f =
     (case x of
        Finite v \<Rightarrow>
          (let s = (if v < 0 then js ''-'' else []);
               a = \<bar>v\<bar>
           in if 10 ^ 21 \<le> a then s @ number_to_string nts (Finite a)
              else
                (let n = nat \<lfloor>a * 10 ^ f + 1 / 2\<rfloor>;
                     m = decimal_digits n
                 in if f \<noteq> 0 then
                      (let m1 = (if length m \<le> f then replicate (f + 1 - length m) 0x30 @ m
                                 else m);
                           k = length m1
                       in s @ take (k - f) m1 @ js ''.'' @ drop (k - f) m1)
                    else s @ m))
      | _ \<Rightarrow> number_to_string nts x)"

text \<open>
  String.prototype.split with a separator of one code unit: the pieces between the
  separators, of which there is always at least one.
\<close>

fun split :: "jsstring \<Rightarrow> 16 word \<Rightarrow> jsstring list" where
  "split [] sep = [[]]"
| "split (c # cs) sep =
     (if c = sep then [] # split cs sep
      else (case split cs sep of [] \<Rightarrow> [[c]] | piece # pieces \<Rightarrow> (c # piece) # pieces))"

text \<open>
  Line 64: \<open>vote_average ? vote_average.toFixed(1) : 'N/A'\<close>. Only a Number has
  \<open>toFixed\<close>; on any other truthy value the call throws.
\<close>

definition rating :: "(rat \<Rightarrow> jsstring) \<Rightarrow> jsval \<Rightarrow> js_error + jsval" where
  "rating nts vote_average =
     (if truthy vote_average then
        (case vote_average of
           JNum n \<Rightarrow> Inr (JStr (toFixed nts n 1))
         | _ \<Rightarrow> Inl TypeError)
      else Inr (JStr (js ''N/A'')))"

text \<open>
  Line 86: \<open>release_date ? release_date.split('-')[0] : 'N/A'\<close>. Only a String has
  \<open>split\<close>; on any other truthy value the call throws.
\<close>

definition year :: "jsval \<Rightarrow> js_error + jsval" where
  "year release_date =
     (if truthy release_date then
        (case release_date of
           JStr d \<Rightarrow> Inr (case split d 0x2D of [] \<Rightarrow> JUndefined | piece # _ \<Rightarrow> JStr piece)
         | _ \<Rightarrow> Inl TypeError)
      else Inr (JStr (js ''N/A'')))"

text \<open>
  Lines 37 to 40: the source of the poster image. The template literal converts a truthy
  \<open>poster_path\<close> to a string.
\<close>

definition poster :: "(rat \<Rightarrow> jsstring) \<Rightarrow> jsval \<Rightarrow> js_error + jsstring" where
  "poster nts poster_path =
     (if truthy poster_path then
        (case to_string nts poster_path of
           Inl e \<Rightarrow> Inl e
         | Inr p \<Rightarrow> Inr (js ''https://image.tmdb.org/t/p/w500/'' @ p))
      else Inr (js ''/No-Poster.png''))"

text \<open>
  What the element that \<open>MovieCard\<close> returns holds: the source and the alternative text of
  the poster, and the children of the heading and of the three paragraphs.
\<close>

record card =
  poster_src :: jsstring
  poster_alt :: jsval
  heading :: jsval
  rating_text :: jsval
  language :: jsval
  year_text :: jsval

text \<open>
  The component function, applied to the \<open>movie\<close> property. The parameter pattern reads
  the five fields; the expressions of the element are then evaluated in the order of the
  source, and the first throw ends the call.
\<close>

definition MovieCard :: "(rat \<Rightarrow> jsstring) \<Rightarrow> jsval \<Rightarrow> js_error + card" where
  "MovieCard nts movie =
     (case get_prop movie (js ''title'') of
        Inl e \<Rightarrow> Inl e
      | Inr title \<Rightarrow>
     (case get_prop movie (js ''vote_average'') of
        Inl e \<Rightarrow> Inl e
      | Inr vote_average \<Rightarrow>
     (case get_prop movie (js ''poster_path'') of
        Inl e \<Rightarrow> Inl e
      | Inr poster_path \<Rightarrow>
     (case get_prop movie (js ''release_date'') of
        Inl e \<Rightarrow> Inl e
      | Inr release_date \<Rightarrow>
     (case get_prop movie (js ''original_language'') of
        Inl e \<Rightarrow> Inl e
      | Inr original_language \<Rightarrow>
     (case poster nts poster_path of
        Inl e \<Rightarrow> Inl e
      | Inr src \<Rightarrow>
     (case rating nts vote_average of
        Inl e \<Rightarrow> Inl e
      | Inr r \<Rightarrow>
     (case year release_date of
        Inl e \<Rightarrow> Inl e
      | Inr y \<Rightarrow>
          Inr \<lparr> poster_src = src, poster_alt = title, heading = title, rating_text = r,
                language = original_language, year_text = y \<rparr>))))))))"

text \<open>
  React then renders the element. A child that is a string or a number becomes text,
  \<open>null\<close>, \<open>undefined\<close> and booleans render nothing, an array renders its elements, and
  a plain object is refused with an error (Objects are not valid as a React child).
\<close>

fun valid_child :: "jsval \<Rightarrow> bool" where
  "valid_child (JObj props) = False"
| "valid_child (JArr xs) = list_all valid_child xs"
| "valid_child _ = True"

definition render_card :: "(rat \<Rightarrow> jsstring) \<Rightarrow> jsval \<Rightarrow> js_error + card" where
  "render_card nts movie =
     (case MovieCard nts movie of
        Inl e \<Rightarrow> Inl e
      | Inr c \<Rightarrow>
          if valid_child (heading c) \<and> valid_child (rating_text c) \<and> valid_child (language c)
             \<and> valid_child (year_text c)
          then Inr c else Inl ReactChildError)"

section \<open>Conditions on the data and example inputs\<close>

text \<open>A value that is neither an array nor an object; a value that is not there.\<close>

fun primitive :: "jsval \<Rightarrow> bool" where
  "primitive (JArr xs) = False"
| "primitive (JObj props) = False"
| "primitive _ = True"

definition absent :: "jsval \<Rightarrow> bool" where
  "absent v = (v = JUndefined \<or> v = JNull)"

text \<open>
  The words of the specification for the year, the first 4-digit segment of the release
  date: the first of the pieces between hyphens that is four decimal digits.
\<close>

definition four_digits :: "jsstring \<Rightarrow> bool" where
  "four_digits y = (length y = 4 \<and> list_all (\<lambda>c. 0x30 \<le> c \<and> c \<le> 0x39) y)"

definition first_four_digit_segment :: "jsstring \<Rightarrow> jsstring option" where
  "first_four_digit_segment d = find four_digits (split d 0x2D)"

text \<open>
  A string is well formed when every surrogate code unit is half of a pair
  (String.prototype.isWellFormed).
\<close>

fun well_formed :: "jsstring \<Rightarrow> bool" where
  "well_formed [] = True"
| "well_formed [c] = (\<not> leading_surrogate c \<and> \<not> trailing_surrogate c)"
| "well_formed (c # d # ds) =
     (if leading_surrogate c then trailing_surrogate d \<and> well_formed ds
      else \<not> trailing_surrogate c \<and> well_formed (d # ds))"

text \<open>
  Networks for the examples: a server that answers every request with one status and one
  body, a transport that fails, and one that never answers.
\<close>

definition server :: "nat \<Rightarrow> jsval promise \<Rightarrow> network" where
  "server code body = (\<lambda>url init. Resolves \<lparr> status = code, json = body \<rparr>)"

definition offline :: network where
  "offline = (\<lambda>url init. Rejects TypeError)"

definition silent :: network where
  "silent = (\<lambda>url init. Pending)"

text \<open>A stand-in for Number::toString where the examples print no such number.\<close>

definition nts_example :: "rat \<Rightarrow> jsstring" where
  "nts_example x = js ''1''"

definition movie1 :: jsval where
  "movie1 = JObj [(js ''id'', JNum (Finite 1)), (js ''title'', JStr (js ''Heat''))]"

definition showing_movie1 :: app_state where
  "showing_movie1 = initial_state\<lparr>movieList := JArr [movie1]\<rparr>"

text \<open>Bodies and movie records for the examples.\<close>

definition boom_body :: jsval where
  "boom_body = JObj [(js ''response'', JStr (js ''False'')), (js ''Error'', JStr (js ''boom''))]"

definition failure_body :: jsval where
  "failure_body = JObj [(js ''response'', JStr (js ''False''))]"

definition empty_error_body :: jsval where
  "empty_error_body = JObj [(js ''response'', JStr (js ''False'')), (js ''Error'', JStr [])]"

definition results_body :: jsval where
  "results_body = JObj [(js ''page'', JNum (Finite 1)), (js ''results'', JArr [movie1])]"

definition dated_movie :: jsval where
  "dated_movie =
     JObj [(js ''title'', JStr (js ''Heat'')), (js ''release_date'', JStr (js ''2024-05-15''))]"

definition unrated_movie :: jsval where
  "unrated_movie = JObj [(js ''title'', JStr (js ''Heat'')), (js ''vote_average'', JNum (Finite 0))]"

definition day_first_movie :: jsval where
  "day_first_movie =
     JObj [(js ''title'', JStr (js ''Heat'')), (js ''release_date'', JStr (js ''15-05-2024''))]"

definition text_rated_movie :: jsval where
  "text_rated_movie =
     JObj [(js ''title'', JStr (js ''Heat'')), (js ''vote_average'', JStr (js ''7.5'')),
           (js ''release_date'', JStr (js ''2024-05-15''))]"

definition object_titled_movie :: jsval where
  "object_titled_movie =
     JObj [(js ''title'', JObj [(js ''en'', JStr (js ''Heat''))]),
           (js ''release_date'', JStr (js ''2024-05-15''))]"

definition odd_poster_movie :: jsval where
  "odd_poster_movie =
     JObj [(js ''title'', JStr (js ''Heat'')),
           (js ''poster_path'', JObj [(js ''toString'', JNull)]),
           (js ''release_date'', JStr (js ''2024-05-15''))]"

definition true_flag_body :: jsval where
  "true_flag_body = JObj [(js ''response'', JStr (js ''True''))]"

definition array_flag_body :: jsval where
  "array_flag_body =
     JObj [(js ''response'', JArr [JStr (js ''False'')]), (js ''results'', JArr [movie1])]"

definition object_flag_body :: jsval where
  "object_flag_body =
     JObj [(js ''response'', JObj [(js ''toString'', JNull)]), (js ''results'', JArr [movie1])]"

section \<open>Properties of the effects\<close>

lemma apply_events_Nil: "apply_events s [] = s"
  by (simp add: apply_events_def)

lemma apply_events_Cons: "apply_events s (e # evs) = apply_events (apply_event s e) evs"
  by (simp add: apply_events_def)

lemma apply_events_append: "apply_events s (xs @ ys) = apply_events (apply_events s xs) ys"
  by (simp add: apply_events_def)

lemma apply_events_debounced:
  "debouncedSearchTerm (apply_events s evs) = debouncedSearchTerm s"
proof (induction evs arbitrary: s)
  case Nil
  show ?case by (simp add: apply_events_Nil)
next
  case (Cons e evs)
  have "debouncedSearchTerm (apply_event s e) = debouncedSearchTerm s"
    by (cases e) simp_all
  with Cons.IH [of "apply_event s e"] show ?case
    by (simp add: apply_events_Cons)
qed

lemma apply_events_searchTerm:
  "(\<And>t. SetSearchTerm t \<notin> set evs) \<Longrightarrow> searchTerm (apply_events s evs) = searchTerm s"
proof (induction evs arbitrary: s)
  case Nil
  show ?case by (simp add: apply_events_Nil)
next
  case (Cons e evs)
  have "\<And>t. e \<noteq> SetSearchTerm t" using Cons.prems by auto
  then have "searchTerm (apply_event s e) = searchTerm s"
    by (cases e) auto
  moreover have "searchTerm (apply_events (apply_event s e) evs) = searchTerm (apply_event s e)"
    using Cons.prems by (intro Cons.IH) auto
  ultimately show ?case by (simp add: apply_events_Cons)
qed

text \<open>A write of the search text changes it: the state is not blind to that setter.\<close>

lemma SetSearchTerm_writes:
  "searchTerm (apply_events s (evs @ [SetSearchTerm t])) = t"
  by (simp add: apply_events_append apply_events_Cons apply_events_Nil)

lemma fetchMovies_events:
  "fst (fetchMovies nts API_KEY net query_arg) =
     [SetIsLoading True, SetErrorMessage (JStr [])]
     @ fst (try_block nts API_KEY net (query_or_default query_arg))
     @ catch_block (snd (try_block nts API_KEY net (query_or_default query_arg)))
     @ finally_block (snd (try_block nts API_KEY net (query_or_default query_arg)))"
  by (simp add: fetchMovies_def split: prod.splits)

lemma fetchMovies_settles:
  "snd (fetchMovies nts API_KEY net query_arg) =
     (snd (try_block nts API_KEY net (query_or_default query_arg)) \<noteq> Suspended)"
  by (simp add: fetchMovies_def split: prod.splits)

lemma finally_block_settled: "c \<noteq> Suspended \<Longrightarrow> finally_block c = [SetIsLoading False]"
  by (cases c) (simp_all add: finally_block_def)

lemmas run_events = after_fetchMovies_def fetchMovies_events apply_events_append
  apply_events_Cons apply_events_Nil catch_block_def finally_block_def

lemma discover_endpoint:
  "endpoint (query_or_default None) =
     Inr (API_BASE_URL @ js ''/discover/movie?sort_by=popularity.desc'')"
  by (simp add: endpoint_def query_or_default_def)

lemma handle_data_no_SetSearchTerm: "SetSearchTerm t \<notin> set (fst (handle_data nts data))"
  by (simp add: handle_data_def split: sum.splits bool.splits)

lemma try_block_no_SetSearchTerm:
  "SetSearchTerm t \<notin> set (fst (try_block nts API_KEY net q))"
  by (simp add: try_block_def case_prod_unfold Let_def handle_data_no_SetSearchTerm
      split: sum.splits promise.splits)

lemma fetchMovies_no_SetSearchTerm:
  "SetSearchTerm t \<notin> set (fst (fetchMovies nts API_KEY net query_arg))"
  by (simp add: fetchMovies_events try_block_no_SetSearchTerm catch_block_def
      finally_block_def split: completion.splits)

text \<open>
  C9: whatever the query and whatever the network does, no effect of a call of
  \<open>fetchMovies\<close> is a call of the setter of the search text, on any of its paths, and the
  state after the call has the search text and the debounced search text it had before:
  the only cells the call writes are the loading flag, the error message and the result
  list.
\<close>

theorem fetchMovies_frame:
  "(\<forall>t. SetSearchTerm t \<notin> set (fst (fetchMovies nts API_KEY net query_arg)))
   \<and> searchTerm (after_fetchMovies nts API_KEY net query_arg s) = searchTerm s
   \<and> debouncedSearchTerm (after_fetchMovies nts API_KEY net query_arg s) =
       debouncedSearchTerm s"
proof (intro conjI allI)
  fix t
  show "SetSearchTerm t \<notin> set (fst (fetchMovies nts API_KEY net query_arg))"
    by (rule fetchMovies_no_SetSearchTerm)
next
  show "searchTerm (after_fetchMovies nts API_KEY net query_arg s) = searchTerm s"
    unfolding after_fetchMovies_def
    by (rule apply_events_searchTerm) (rule fetchMovies_no_SetSearchTerm)
next
  show "debouncedSearchTerm (after_fetchMovies nts API_KEY net query_arg s) =
      debouncedSearchTerm s"
    unfolding after_fetchMovies_def by (rule apply_events_debounced)
qed

text \<open>
  C5: every call of \<open>fetchMovies\<close> begins by setting the loading flag to true; whenever
  the call settles (success, inline failure, a status outside 200 to 299, a rejected
  request, any other throw), its last effect sets the flag to false, and the flag is false
  in the resulting state.
\<close>

theorem fetchMovies_loading:
  "(\<exists>rest. fst (fetchMovies nts API_KEY net query_arg) = SetIsLoading True # rest) \<and>
   (snd (fetchMovies nts API_KEY net query_arg) \<longrightarrow>
      last (fst (fetchMovies nts API_KEY net query_arg)) = SetIsLoading False \<and>
      \<not> isLoading (after_fetchMovies nts API_KEY net query_arg s))"
proof (intro conjI impI)
  show "\<exists>rest. fst (fetchMovies nts API_KEY net query_arg) = SetIsLoading True # rest"
    by (simp add: fetchMovies_events)
next
  assume "snd (fetchMovies nts API_KEY net query_arg)"
  then have fin: "finally_block (snd (try_block nts API_KEY net (query_or_default query_arg)))
      = [SetIsLoading False]"
    by (simp add: fetchMovies_settles finally_block_settled)
  show "last (fst (fetchMovies nts API_KEY net query_arg)) = SetIsLoading False"
    by (simp add: fetchMovies_events fin)
  show "\<not> isLoading (after_fetchMovies nts API_KEY net query_arg s)"
    by (simp add: after_fetchMovies_def fetchMovies_events fin apply_events_append
        apply_events_Cons apply_events_Nil)
qed

theorem fetchMovies_loading_witness:
  "snd (fetchMovies nts_example None (server 200 (Resolves results_body)) None)
   \<and> last (fst (fetchMovies nts_example None (server 200 (Resolves results_body)) None)) =
       SetIsLoading False
   \<and> \<not> isLoading (after_fetchMovies nts_example None (server 200 (Resolves results_body)) None
       showing_movie1)"
proof -
  have "snd (fetchMovies nts_example None (server 200 (Resolves results_body)) None)"
    by (simp add: fetchMovies_settles try_block_def discover_endpoint server_def ok_def
        handle_data_def inline_failure_def results_body_def js_def)
  then show ?thesis
    using fetchMovies_loading [of nts_example None "server 200 (Resolves results_body)" None
        showing_movie1]
    by simp
qed

text \<open>A call whose request is never answered does not settle, and the flag stays true.\<close>

lemma fetchMovies_unanswered:
  "\<not> snd (fetchMovies nts API_KEY silent None)
   \<and> isLoading (after_fetchMovies nts API_KEY silent None s)"
  by (simp add: fetchMovies_settles run_events try_block_def discover_endpoint silent_def)

section \<open>Properties of the response handling\<close>

lemma try_block_parsed:
  assumes "endpoint q = Inr url"
    and "net url (API_OPTIONS API_KEY) = Resolves resp"
    and "ok resp"
    and "json resp = Resolves data"
  shows "try_block nts API_KEY net q =
           (Fetch url (API_OPTIONS API_KEY) # ConsoleLogData data # fst (handle_data nts data),
            snd (handle_data nts data))"
  using assms by (simp add: try_block_def split: prod.splits)

lemma try_block_not_ok:
  assumes "endpoint q = Inr url"
    and "net url (API_OPTIONS API_KEY) = Resolves resp"
    and "\<not> ok resp"
  shows "try_block nts API_KEY net q =
           ([Fetch url (API_OPTIONS API_KEY)], Thrown (Error (js ''failed to get movies'')))"
  using assms by (simp add: try_block_def)

lemma try_block_rejects:
  assumes "endpoint q = Inr url"
    and "net url (API_OPTIONS API_KEY) = Rejects e"
  shows "try_block nts API_KEY net q = ([Fetch url (API_OPTIONS API_KEY)], Thrown e)"
  using assms by (simp add: try_block_def)

text \<open>
  The test of step 8 on a body whose \<open>response\<close> is a string, and on one without
  \<open>response\<close>. Through the loose comparison an array can pass it as well.
\<close>

lemma inline_failure_string:
  "get_prop data (js ''response'') = Inr (JStr t) \<Longrightarrow>
   inline_failure nts data = Inr (t = js ''False'')"
  by (simp add: inline_failure_def)

lemma inline_failure_missing:
  "get_prop data (js ''response'') = Inr JUndefined \<Longrightarrow> inline_failure nts data = Inr False"
  by (simp add: inline_failure_def)

lemma inline_failure_array:
  "inline_failure nts (JObj [(js ''response'', JArr [JStr (js ''False'')])]) = Inr True"
  by (simp add: inline_failure_def)

lemma handle_data_inline_failure:
  assumes "map_of props (js ''response'') = Some (JStr (js ''False''))"
  shows "handle_data nts (JObj props) =
           ([SetErrorMessage
               (js_or (case map_of props (js ''Error'') of None \<Rightarrow> JUndefined | Some v \<Rightarrow> v)
                  (JStr (js ''Failed to fetch movies''))),
             SetMovieList (JArr [])], Completed)"
  using assms by (simp add: handle_data_def inline_failure_def)

lemma handle_data_results:
  assumes "inline_failure nts data = Inr False"
    and "get_prop data (js ''results'') = Inr results"
  shows "handle_data nts data = ([SetMovieList (js_or results (JArr []))], Completed)"
  using assms by (simp add: handle_data_def)

text \<open>
  C2: when the response has a status from 200 to 299 and its parsed body has \<open>response\<close>
  equal to the string \<open>False\<close> and \<open>Error\<close> equal to \<open>boom\<close>, the error message becomes
  \<open>boom\<close> and the result list becomes the empty array; the effects are exactly those of the
  failure branch, so the setter of the success path is not called.
\<close>

theorem inline_failure_boom:
  assumes "endpoint (query_or_default query_arg) = Inr url"
    and "net url (API_OPTIONS API_KEY) = Resolves resp"
    and "200 \<le> status resp \<and> status resp \<le> 299"
    and "json resp = Resolves (JObj props)"
    and "map_of props (js ''response'') = Some (JStr (js ''False''))"
    and "map_of props (js ''Error'') = Some (JStr (js ''boom''))"
  shows "fst (fetchMovies nts API_KEY net query_arg) =
           [SetIsLoading True, SetErrorMessage (JStr []), Fetch url (API_OPTIONS API_KEY),
            ConsoleLogData (JObj props), SetErrorMessage (JStr (js ''boom'')),
            SetMovieList (JArr []), SetIsLoading False]
         \<and> errorMessage (after_fetchMovies nts API_KEY net query_arg s) = JStr (js ''boom'')
         \<and> movieList (after_fetchMovies nts API_KEY net query_arg s) = JArr []"
proof -
  have okr: "ok resp" using assms(3) by (simp add: ok_def)
  have boom: "js_or (JStr (js ''boom'')) (JStr (js ''Failed to fetch movies'')) = JStr (js ''boom'')"
    by (simp add: js_or_def js_def)
  have tb: "try_block nts API_KEY net (query_or_default query_arg) =
      ([Fetch url (API_OPTIONS API_KEY), ConsoleLogData (JObj props),
        SetErrorMessage (JStr (js ''boom'')), SetMovieList (JArr [])], Completed)"
    using assms(1,2,4,6) okr handle_data_inline_failure [OF assms(5), of nts] boom
    by (simp add: try_block_parsed)
  show ?thesis by (simp add: run_events tb)
qed

theorem inline_failure_boom_witness:
  "errorMessage (after_fetchMovies nts_example None (server 200 (Resolves boom_body)) None
       showing_movie1) = JStr (js ''boom'')
   \<and> movieList (after_fetchMovies nts_example None (server 200 (Resolves boom_body)) None
       showing_movie1) = JArr []"
  using inline_failure_boom [where query_arg = None
      and url = "API_BASE_URL @ js ''/discover/movie?sort_by=popularity.desc''"
      and net = "server 200 (Resolves boom_body)" and API_KEY = None
      and resp = "\<lparr> status = 200, json = Resolves boom_body \<rparr>"
      and props = "[(js ''response'', JStr (js ''False'')), (js ''Error'', JStr (js ''boom''))]"
      and nts = nts_example and s = showing_movie1]
  by (simp add: discover_endpoint server_def boom_body_def js_def)

text \<open>
  C10: when the response has a status from 200 to 299 and its parsed body has \<open>response\<close>
  equal to the string \<open>False\<close> while \<open>Error\<close> is missing or the empty string, the error
  message becomes the default text \<open>Failed to fetch movies\<close>, which is not empty, and the
  result list becomes the empty array.
\<close>

theorem inline_failure_default_message:
  assumes "endpoint (query_or_default query_arg) = Inr url"
    and "net url (API_OPTIONS API_KEY) = Resolves resp"
    and "200 \<le> status resp \<and> status resp \<le> 299"
    and "json resp = Resolves (JObj props)"
    and "map_of props (js ''response'') = Some (JStr (js ''False''))"
    and "map_of props (js ''Error'') = None \<or> map_of props (js ''Error'') = Some (JStr [])"
  shows "errorMessage (after_fetchMovies nts API_KEY net query_arg s) =
           JStr (js ''Failed to fetch movies'')
         \<and> errorMessage (after_fetchMovies nts API_KEY net query_arg s) \<noteq> JStr []
         \<and> movieList (after_fetchMovies nts API_KEY net query_arg s) = JArr []"
proof -
  have okr: "ok resp" using assms(3) by (simp add: ok_def)
  have dflt: "js_or (case map_of props (js ''Error'') of None \<Rightarrow> JUndefined | Some v \<Rightarrow> v)
      (JStr (js ''Failed to fetch movies'')) = JStr (js ''Failed to fetch movies'')"
    using assms(6) by (auto simp: js_or_def)
  have tb: "try_block nts API_KEY net (query_or_default query_arg) =
      ([Fetch url (API_OPTIONS API_KEY), ConsoleLogData (JObj props),
        SetErrorMessage (JStr (js ''Failed to fetch movies'')), SetMovieList (JArr [])], Completed)"
    using assms(1,2,4) okr handle_data_inline_failure [OF assms(5), of nts] dflt
    by (simp add: try_block_parsed)
  have ne: "js ''Failed to fetch movies'' \<noteq> []" by (simp add: js_def)
  show ?thesis by (simp add: run_events tb ne)
qed

theorem inline_failure_default_message_witness:
  "errorMessage (after_fetchMovies nts_example None (server 200 (Resolves failure_body)) None
       showing_movie1) = JStr (js ''Failed to fetch movies'')
   \<and> movieList (after_fetchMovies nts_example None (server 200 (Resolves failure_body)) None
       showing_movie1) = JArr []
   \<and> errorMessage (after_fetchMovies nts_example None (server 200 (Resolves empty_error_body))
       None showing_movie1) = JStr (js ''Failed to fetch movies'')"
  using inline_failure_default_message [where query_arg = None
      and url = "API_BASE_URL @ js ''/discover/movie?sort_by=popularity.desc''"
      and net = "server 200 (Resolves failure_body)" and API_KEY = None
      and resp = "\<lparr> status = 200, json = Resolves failure_body \<rparr>"
      and props = "[(js ''response'', JStr (js ''False''))]"
      and nts = nts_example and s = showing_movie1]
    inline_failure_default_message [where query_arg = None
      and url = "API_BASE_URL @ js ''/discover/movie?sort_by=popularity.desc''"
      and net = "server 200 (Resolves empty_error_body)" and API_KEY = None
      and resp = "\<lparr> status = 200, json = Resolves empty_error_body \<rparr>"
      and props = "[(js ''response'', JStr (js ''False'')), (js ''Error'', JStr [])]"
      and nts = nts_example and s = showing_movie1]
  by (simp add: discover_endpoint server_def failure_body_def empty_error_body_def js_def)

text \<open>
  When \<open>response\<close> is missing, \<open>null\<close>, a boolean, a number, a string other than
  \<open>False\<close>, or an object without a \<open>toString\<close> of its own, the test of step 8 is false.
\<close>

lemma loose_eq_False_plain:
  assumes "flag = JUndefined \<or> flag = JNull \<or> (\<exists>b. flag = JBool b) \<or> (\<exists>n. flag = JNum n)
      \<or> (\<exists>t. flag = JStr t \<and> t \<noteq> js ''False'')
      \<or> (\<exists>props. flag = JObj props \<and> js ''toString'' \<notin> fst ` set props)"
  shows "loose_eq_False nts flag = Inr False"
proof -
  have "js ''[object Object]'' \<noteq> js ''False''" by (simp add: js_def)
  with assms show ?thesis by auto
qed

text \<open>
  C4, as amended: when the response has a status from 200 to 299, its parsed body is not
  \<open>null\<close>, and the \<open>response\<close> property of the body is missing, \<open>null\<close>, a boolean, a
  number, a string other than \<open>False\<close>, or an object without a \<open>toString\<close> property of its
  own, the result list becomes the \<open>results\<close> array of the body, or the empty array when
  the body has no \<open>results\<close>, and the error message stays empty.
\<close>

theorem success_sets_results:
  assumes "endpoint (query_or_default query_arg) = Inr url"
    and "net url (API_OPTIONS API_KEY) = Resolves resp"
    and "200 \<le> status resp \<and> status resp \<le> 299"
    and "json resp = Resolves data"
    and "get_prop data (js ''response'') = Inr flag"
    and "flag = JUndefined \<or> flag = JNull \<or> (\<exists>b. flag = JBool b) \<or> (\<exists>n. flag = JNum n)
      \<or> (\<exists>t. flag = JStr t \<and> t \<noteq> js ''False'')
      \<or> (\<exists>props. flag = JObj props \<and> js ''toString'' \<notin> fst ` set props)"
    and "get_prop data (js ''results'') = Inr results"
  shows "(\<forall>movies. results = JArr movies \<longrightarrow>
            movieList (after_fetchMovies nts API_KEY net query_arg s) = JArr movies)
         \<and> (results = JUndefined \<longrightarrow>
            movieList (after_fetchMovies nts API_KEY net query_arg s) = JArr [])
         \<and> errorMessage (after_fetchMovies nts API_KEY net query_arg s) = JStr []"
proof -
  have okr: "ok resp" using assms(3) by (simp add: ok_def)
  have test: "inline_failure nts data = Inr False"
    using assms(5) loose_eq_False_plain [OF assms(6), of nts] by (simp add: inline_failure_def)
  have tb: "try_block nts API_KEY net (query_or_default query_arg) =
      ([Fetch url (API_OPTIONS API_KEY), ConsoleLogData data,
        SetMovieList (js_or results (JArr []))], Completed)"
    using assms(1,2,4) okr handle_data_results [OF test assms(7)]
    by (simp add: try_block_parsed)
  show ?thesis by (simp add: run_events tb js_or_def)
qed

theorem success_sets_results_witness:
  "movieList (after_fetchMovies nts_example None (server 200 (Resolves results_body)) None
       initial_state) = JArr [movie1]
   \<and> errorMessage (after_fetchMovies nts_example None (server 200 (Resolves results_body)) None
       initial_state) = JStr []
   \<and> movieList (after_fetchMovies nts_example None (server 200 (Resolves true_flag_body)) None
       showing_movie1) = JArr []"
  using success_sets_results [where query_arg = None
      and url = "API_BASE_URL @ js ''/discover/movie?sort_by=popularity.desc''"
      and net = "server 200 (Resolves results_body)" and API_KEY = None
      and resp = "\<lparr> status = 200, json = Resolves results_body \<rparr>"
      and data = results_body and flag = JUndefined and results = "JArr [movie1]"
      and nts = nts_example and s = initial_state]
    success_sets_results [where query_arg = None
      and url = "API_BASE_URL @ js ''/discover/movie?sort_by=popularity.desc''"
      and net = "server 200 (Resolves true_flag_body)" and API_KEY = None
      and resp = "\<lparr> status = 200, json = Resolves true_flag_body \<rparr>"
      and data = true_flag_body and flag = "JStr (js ''True'')" and results = JUndefined
      and nts = nts_example and s = showing_movie1]
  by (simp add: discover_endpoint server_def results_body_def true_flag_body_def js_def)

text \<open>
  C4 as first stated fails at three bodies of a response with status 200, none of which
  has \<open>response\<close> equal to the string \<open>False\<close>. For the body \<open>null\<close> the read of
  \<open>response\<close> throws, and the error message becomes the generic text. For a body whose
  \<open>response\<close> is the array of the one string \<open>False\<close> the loose comparison holds, so the
  \<open>results\<close> that the body has are not stored and the error message becomes the default
  text. For a body whose \<open>response\<close> is an object with a \<open>toString\<close> of its own the
  comparison throws.
\<close>

theorem flagless_bodies_fail:
  "errorMessage (after_fetchMovies nts_example None (server 200 (Resolves JNull)) None
       initial_state) = JStr (js ''Error fetching movies. Please Try Again.'')
   \<and> get_prop array_flag_body (js ''response'') \<noteq> Inr (JStr (js ''False''))
   \<and> get_prop array_flag_body (js ''results'') = Inr (JArr [movie1])
   \<and> movieList (after_fetchMovies nts_example None (server 200 (Resolves array_flag_body)) None
       initial_state) = JArr []
   \<and> errorMessage (after_fetchMovies nts_example None (server 200 (Resolves array_flag_body))
       None initial_state) = JStr (js ''Failed to fetch movies'')
   \<and> get_prop object_flag_body (js ''response'') \<noteq> Inr (JStr (js ''False''))
   \<and> movieList (after_fetchMovies nts_example None (server 200 (Resolves object_flag_body))
       None initial_state) = JArr []
   \<and> errorMessage (after_fetchMovies nts_example None (server 200 (Resolves object_flag_body))
       None initial_state) = JStr (js ''Error fetching movies. Please Try Again.'')"
  by (simp add: run_events try_block_def discover_endpoint server_def ok_def handle_data_def
      inline_failure_def js_or_def initial_state_def array_flag_body_def object_flag_body_def
      js_def)

text \<open>
  What the \<open>catch\<close> block does after a status outside 200 to 299 or a rejected request: the
  error message becomes the generic text, and the result list is left as it was.
\<close>

lemma fetchMovies_failure_keeps_list:
  assumes "endpoint (query_or_default query_arg) = Inr url"
    and "net url (API_OPTIONS API_KEY) = Rejects e \<or>
         (\<exists>resp. net url (API_OPTIONS API_KEY) = Resolves resp \<and> \<not> ok resp)"
  shows "errorMessage (after_fetchMovies nts API_KEY net query_arg s) =
           JStr (js ''Error fetching movies. Please Try Again.'')
         \<and> movieList (after_fetchMovies nts API_KEY net query_arg s) = movieList s"
proof -
  from assms(2) obtain err where
    tb: "try_block nts API_KEY net (query_or_default query_arg) =
           ([Fetch url (API_OPTIONS API_KEY)], Thrown err)"
    using assms(1) by (auto simp: try_block_rejects try_block_not_ok)
  show ?thesis by (simp add: run_events tb)
qed

text \<open>
  C1 at a page that shows one movie: after a response with status 500, and after a
  rejected request, the error message is the generic text and the result list still holds
  that movie.
\<close>

theorem http_failure_keeps_stale_list:
  "errorMessage (after_fetchMovies nts_example None (server 500 (Resolves (JObj []))) None
       showing_movie1) = JStr (js ''Error fetching movies. Please Try Again.'')
   \<and> movieList (after_fetchMovies nts_example None (server 500 (Resolves (JObj []))) None
       showing_movie1) = JArr [movie1]
   \<and> movieList (after_fetchMovies nts_example None offline None showing_movie1) = JArr [movie1]"
  by (simp add: run_events try_block_def discover_endpoint server_def offline_def ok_def
      showing_movie1_def)

section \<open>Properties of the request\<close>

lemma unreserved_not_surrogate:
  "unreserved c \<Longrightarrow> \<not> leading_surrogate c \<and> \<not> trailing_surrogate c"
  by (auto simp: unreserved_def leading_surrogate_def trailing_surrogate_def js_def
      word_le_nat_alt)

lemma leading_not_trailing: "leading_surrogate c \<Longrightarrow> \<not> trailing_surrogate c"
  by (auto simp: leading_surrogate_def trailing_surrogate_def word_le_nat_alt)

lemma encodeURIComponent_well_formed:
  "well_formed q \<Longrightarrow> \<exists>e. encodeURIComponent q = Inr e"
proof (induction q rule: well_formed.induct)
  case 1
  show ?case by simp
next
  case (2 c)
  then show ?case by simp
next
  case (3 c d ds)
  show ?case
  proof (cases "leading_surrogate c")
    case True
    with 3 obtain e where "encodeURIComponent ds = Inr e" by auto
    with True 3 show ?thesis
      using unreserved_not_surrogate [of c] leading_not_trailing [of c] by auto
  next
    case False
    with 3 obtain e where "encodeURIComponent (d # ds) = Inr e" by auto
    with False 3 show ?thesis by (auto simp del: encodeURIComponent.simps(2) simp: encodeURIComponent.simps(2) [of c])
  qed
qed

lemma encodeURIComponent_ill_formed:
  "\<not> well_formed q \<Longrightarrow> encodeURIComponent q = Inl URIError"
proof (induction q rule: well_formed.induct)
  case 1
  then show ?case by simp
next
  case (2 c)
  then show ?case using unreserved_not_surrogate [of c] by auto
next
  case (3 c d ds)
  show ?case
  proof (cases "leading_surrogate c")
    case True
    with 3 show ?thesis
      using unreserved_not_surrogate [of c] leading_not_trailing [of c] by auto
  next
    case False
    show ?thesis
    proof (cases "trailing_surrogate c")
      case True
      then show ?thesis using unreserved_not_surrogate [of c] by auto
    next
      case nt: False
      with False 3 have "encodeURIComponent (d # ds) = Inl URIError" by auto
      with False nt show ?thesis
        by (auto simp del: encodeURIComponent.simps(2) simp: encodeURIComponent.simps(2) [of c])
    qed
  qed
qed

lemma hex_digit_unreserved:
  assumes "0 \<le> d" and "d < 16"
  shows "unreserved (hex_digit d)"
proof -
  from assms have "d = 0 \<or> d = 1 \<or> d = 2 \<or> d = 3 \<or> d = 4 \<or> d = 5 \<or> d = 6 \<or> d = 7
      \<or> d = 8 \<or> d = 9 \<or> d = 10 \<or> d = 11 \<or> d = 12 \<or> d = 13 \<or> d = 14 \<or> d = 15"
    by arith
  then show ?thesis
    by (elim disjE) (simp_all add: hex_digit_def unreserved_def)
qed

lemma utf8_octets:
  assumes "0 \<le> cp" and "cp < 0x110000"
  shows "\<forall>b \<in> set (utf8 cp). 0 \<le> b \<and> b < 256"
  using assms by (auto simp: utf8_def)

lemma percent_escape_chars:
  assumes "0 \<le> b" and "b < 256"
  shows "\<forall>c \<in> set (percent_escape b). unreserved c \<or> c = 0x25"
proof -
  have "0 \<le> b div 16" "b div 16 < 16" "0 \<le> b mod 16" "b mod 16 < 16"
    using assms by auto
  then show ?thesis
    by (simp add: percent_escape_def hex_digit_unreserved)
qed

lemma escape_code_point_chars:
  assumes "0 \<le> cp" and "cp < 0x110000"
  shows "\<forall>c \<in> set (escape_code_point cp). unreserved c \<or> c = 0x25"
  using utf8_octets [OF assms] percent_escape_chars
  by (auto simp: escape_code_point_def)

lemma uint16_range: "0 \<le> uint (c :: 16 word) \<and> uint c < 0x110000"
  using uint_lt2p [of c] by simp

lemma surrogate_pair_range:
  assumes "leading_surrogate c" and "trailing_surrogate d"
  shows "0 \<le> surrogate_pair_to_code_point c d \<and> surrogate_pair_to_code_point c d < 0x110000"
  using assms
  by (simp add: leading_surrogate_def trailing_surrogate_def surrogate_pair_to_code_point_def
      word_le_def)

lemma encodeURIComponent_chars:
  "encodeURIComponent q = Inr e \<Longrightarrow> \<forall>c \<in> set e. unreserved c \<or> c = 0x25"
proof (induction q arbitrary: e rule: encodeURIComponent.induct)
  case 1
  then show ?case by simp
next
  case (2 c cs)
  show ?case
  proof (cases "unreserved c")
    case True
    with 2 show ?thesis by (auto split: sum.splits)
  next
    case False
    show ?thesis
    proof (cases "\<not> leading_surrogate c \<and> \<not> trailing_surrogate c")
      case True
      with False 2 escape_code_point_chars [of "uint c"] uint16_range [of c]
      show ?thesis by (auto split: sum.splits)
    next
      case surr: False
      with False "2.prems" obtain d ds r where
        cs: "cs = d # ds" and td: "trailing_surrogate d" and lc: "leading_surrogate c"
        and ntc: "\<not> trailing_surrogate c"
        and r: "encodeURIComponent ds = Inr r"
        and e: "e = escape_code_point (surrogate_pair_to_code_point c d) @ r"
        by (auto split: if_splits list.splits sum.splits)
      have "\<forall>x \<in> set r. unreserved x \<or> x = 0x25"
        using "2.IH"(3) [OF False _ _ cs _ r] surr ntc td by auto
      with e escape_code_point_chars [of "surrogate_pair_to_code_point c d"]
        surrogate_pair_range [OF lc td]
      show ?thesis by auto
    qed
  qed
qed

lemma space_reserved: "\<not> unreserved 0x20"
  by (simp add: unreserved_def js_def)

lemma encodeURIComponent_no_space: "encodeURIComponent q = Inr e \<Longrightarrow> 0x20 \<notin> set e"
  using encodeURIComponent_chars [of q e] space_reserved by auto

lemma encodeURIComponent_space: "encodeURIComponent [0x20] = Inr (js ''%20'')"
  by (simp add: space_reserved leading_surrogate_def trailing_surrogate_def
      escape_code_point_def utf8_def percent_escape_def hex_digit_def js_def)

lemma encodeURIComponent_append:
  "well_formed a \<Longrightarrow>
   encodeURIComponent (a @ b) =
     (case encodeURIComponent a of
        Inl e \<Rightarrow> Inl e
      | Inr ea \<Rightarrow> (case encodeURIComponent b of Inl e \<Rightarrow> Inl e | Inr eb \<Rightarrow> Inr (ea @ eb)))"
proof (induction a rule: well_formed.induct)
  case 1
  show ?case by (simp split: sum.splits)
next
  case (2 c)
  then show ?case by (simp split: sum.splits)
next
  case (3 c d ds)
  show ?case
  proof (cases "leading_surrogate c")
    case True
    with 3 show ?thesis
      using unreserved_not_surrogate [of c] leading_not_trailing [of c]
      by (auto split: sum.splits)
  next
    case False
    with 3 have ih: "encodeURIComponent ((d # ds) @ b) =
      (case encodeURIComponent (d # ds) of
         Inl e \<Rightarrow> Inl e
       | Inr ea \<Rightarrow> (case encodeURIComponent b of Inl e \<Rightarrow> Inl e | Inr eb \<Rightarrow> Inr (ea @ eb)))"
      by simp
    have nt: "\<not> trailing_surrogate c" using 3 False by simp
    have l: "encodeURIComponent ((c # d # ds) @ b) =
        (if unreserved c then
           (case encodeURIComponent ((d # ds) @ b) of Inl e \<Rightarrow> Inl e | Inr r \<Rightarrow> Inr (c # r))
         else (case encodeURIComponent ((d # ds) @ b) of
             Inl e \<Rightarrow> Inl e | Inr r \<Rightarrow> Inr (escape_code_point (uint c) @ r)))"
      using False nt by simp
    have r: "encodeURIComponent (c # d # ds) =
        (if unreserved c then
           (case encodeURIComponent (d # ds) of Inl e \<Rightarrow> Inl e | Inr r \<Rightarrow> Inr (c # r))
         else (case encodeURIComponent (d # ds) of
             Inl e \<Rightarrow> Inl e | Inr r \<Rightarrow> Inr (escape_code_point (uint c) @ r)))"
      using False nt by simp
    show ?thesis unfolding l r ih by (simp split: sum.splits)
  qed
qed

lemma requests_Cons:
  "requests (e # evs) = (case e of Fetch url init \<Rightarrow> [url] | _ \<Rightarrow> []) @ requests evs"
  by (simp add: requests_def)

lemma requests_Nil: "requests [] = []"
  by (simp add: requests_def)

lemma requests_append: "requests (xs @ ys) = requests xs @ requests ys"
  by (simp add: requests_def)

lemma requests_handle_data: "requests (fst (handle_data nts data)) = []"
  by (simp add: handle_data_def requests_Cons requests_Nil split: sum.splits bool.splits)

lemma requests_try_block:
  "requests (fst (try_block nts API_KEY net q)) =
     (case endpoint q of Inl e \<Rightarrow> [] | Inr url \<Rightarrow> [url])"
  by (simp add: try_block_def case_prod_unfold Let_def requests_Cons requests_Nil requests_handle_data
      split: sum.splits promise.splits)

lemma requests_fetchMovies:
  "requests (fst (fetchMovies nts API_KEY net query_arg)) =
     (case endpoint (query_or_default query_arg) of Inl e \<Rightarrow> [] | Inr url \<Rightarrow> [url])"
  by (simp add: fetchMovies_events requests_append requests_Cons requests_Nil
      requests_try_block catch_block_def finally_block_def split: completion.splits)

text \<open>
  C3, as amended: without a query, or with the empty query, the discovery endpoint is
  requested. A non-empty query without an unpaired surrogate is requested from the search
  endpoint, percent-encoded: the encoding exists, contains no space, and a space between
  two well-formed parts is written \<open>%20\<close> between their encodings. For a non-empty query
  with an unpaired surrogate no request is made.
\<close>

theorem fetchMovies_endpoint:
  "requests (fst (fetchMovies nts API_KEY net None)) =
     [API_BASE_URL @ js ''/discover/movie?sort_by=popularity.desc'']
   \<and> requests (fst (fetchMovies nts API_KEY net (Some []))) =
     [API_BASE_URL @ js ''/discover/movie?sort_by=popularity.desc'']
   \<and> (q \<noteq> [] \<and> well_formed q \<longrightarrow>
        (\<exists>e. encodeURIComponent q = Inr e \<and> 0x20 \<notin> set e \<and>
             requests (fst (fetchMovies nts API_KEY net (Some q))) =
               [API_BASE_URL @ js ''/search/movie?query='' @ e]))
   \<and> (well_formed a \<and> well_formed b \<longrightarrow>
        (\<exists>ea eb. encodeURIComponent a = Inr ea \<and> encodeURIComponent b = Inr eb \<and>
             encodeURIComponent (a @ [0x20] @ b) = Inr (ea @ js ''%20'' @ eb)))
   \<and> (q \<noteq> [] \<and> \<not> well_formed q \<longrightarrow>
        requests (fst (fetchMovies nts API_KEY net (Some q))) = [])"
proof (intro conjI impI)
  show "requests (fst (fetchMovies nts API_KEY net None)) =
      [API_BASE_URL @ js ''/discover/movie?sort_by=popularity.desc'']"
    by (simp add: requests_fetchMovies query_or_default_def endpoint_def)
  show "requests (fst (fetchMovies nts API_KEY net (Some []))) =
      [API_BASE_URL @ js ''/discover/movie?sort_by=popularity.desc'']"
    by (simp add: requests_fetchMovies query_or_default_def endpoint_def)
next
  assume q: "q \<noteq> [] \<and> well_formed q"
  then obtain e where e: "encodeURIComponent q = Inr e"
    using encodeURIComponent_well_formed by blast
  have "requests (fst (fetchMovies nts API_KEY net (Some q))) =
      [API_BASE_URL @ js ''/search/movie?query='' @ e]"
    using q e by (simp add: requests_fetchMovies query_or_default_def endpoint_def)
  with e encodeURIComponent_no_space [OF e]
  show "\<exists>e. encodeURIComponent q = Inr e \<and> 0x20 \<notin> set e \<and>
      requests (fst (fetchMovies nts API_KEY net (Some q))) =
        [API_BASE_URL @ js ''/search/movie?query='' @ e]"
    by blast
next
  assume ab: "well_formed a \<and> well_formed b"
  then obtain ea eb where ea: "encodeURIComponent a = Inr ea"
    and eb: "encodeURIComponent b = Inr eb"
    using encodeURIComponent_well_formed by blast
  have sp: "well_formed [0x20]"
    by (simp add: leading_surrogate_def trailing_surrogate_def)
  have "encodeURIComponent ([0x20] @ b) = Inr (js ''%20'' @ eb)"
    unfolding encodeURIComponent_append [OF sp] encodeURIComponent_space using eb by simp
  then have "encodeURIComponent (a @ [0x20] @ b) = Inr (ea @ js ''%20'' @ eb)"
    using ab ea by (simp add: encodeURIComponent_append [of a])
  with ea eb
  show "\<exists>ea eb. encodeURIComponent a = Inr ea \<and> encodeURIComponent b = Inr eb \<and>
      encodeURIComponent (a @ [0x20] @ b) = Inr (ea @ js ''%20'' @ eb)"
    by blast
next
  assume q: "q \<noteq> [] \<and> \<not> well_formed q"
  then show "requests (fst (fetchMovies nts API_KEY net (Some q))) = []"
    by (simp add: requests_fetchMovies query_or_default_def endpoint_def
        encodeURIComponent_ill_formed)
qed

lemma batman_well_formed: "well_formed (js ''batman and robin'')"
  by code_simp

lemma batman_encoded:
  "encodeURIComponent (js ''batman and robin'') = Inr (js ''batman%20and%20robin'')"
  by code_simp

theorem fetchMovies_endpoint_witness:
  "requests (fst (fetchMovies nts_example None offline (Some (js ''batman and robin'')))) =
     [js ''https://api.themoviedb.org/3/search/movie?query=batman%20and%20robin'']
   \<and> encodeURIComponent (js ''batman'' @ [0x20] @ js ''robin'') = Inr (js ''batman%20robin'')
   \<and> requests (fst (fetchMovies nts_example None offline (Some [0xDC00]))) = []"
proof -
  have ne: "js ''batman and robin'' \<noteq> []" by (simp add: js_def)
  from fetchMovies_endpoint [of nts_example None offline "js ''batman and robin''"]
    ne batman_well_formed
  obtain e where e1: "encodeURIComponent (js ''batman and robin'') = Inr e"
    and e2: "requests (fst (fetchMovies nts_example None offline
        (Some (js ''batman and robin'')))) = [API_BASE_URL @ js ''/search/movie?query='' @ e]"
    by blast
  from e1 have "e = js ''batman%20and%20robin''" by (simp add: batman_encoded)
  with e2 have first: "requests (fst (fetchMovies nts_example None offline
      (Some (js ''batman and robin'')))) =
     [js ''https://api.themoviedb.org/3/search/movie?query=batman%20and%20robin'']"
    by (simp add: API_BASE_URL_def js_def)
  have wa: "well_formed (js ''batman'')" and wb: "well_formed (js ''robin'')" by code_simp+
  have ea: "encodeURIComponent (js ''batman'') = Inr (js ''batman'')"
    and eb: "encodeURIComponent (js ''robin'') = Inr (js ''robin'')" by code_simp+
  from fetchMovies_endpoint [of nts_example None offline _ "js ''batman''" "js ''robin''"] wa wb
  obtain ea' eb' where a1: "encodeURIComponent (js ''batman'') = Inr ea'"
    and b1: "encodeURIComponent (js ''robin'') = Inr eb'"
    and ab: "encodeURIComponent (js ''batman'' @ [0x20] @ js ''robin'') =
      Inr (ea' @ js ''%20'' @ eb')"
    by blast
  from a1 b1 have "ea' = js ''batman''" and "eb' = js ''robin''" by (simp_all add: ea eb)
  moreover have "js ''batman'' @ js ''%20'' @ js ''robin'' = js ''batman%20robin''"
    by (simp add: js_def)
  ultimately have second: "encodeURIComponent (js ''batman'' @ [0x20] @ js ''robin'') =
      Inr (js ''batman%20robin'')"
    using ab by simp
  have "[0xDC00] \<noteq> ([] :: jsstring) \<and> \<not> well_formed [0xDC00]"
    by (simp add: trailing_surrogate_def)
  with fetchMovies_endpoint [of nts_example None offline "[0xDC00]"]
  have third: "requests (fst (fetchMovies nts_example None offline (Some [0xDC00]))) = []"
    by blast
  from first second third show ?thesis by blast
qed

text \<open>
  C3 as first stated fails at the query made of the single code unit D800: it is not
  empty, and nothing is requested for
  it: \<open>encodeURIComponent\<close> throws inside the \<open>try\<close> block before \<open>fetch\<close> is reached.
\<close>

theorem lone_surrogate_query_not_requested:
  "[0xD800] \<noteq> ([] :: jsstring) \<and>
   requests (fst (fetchMovies nts_example None offline (Some [0xD800]))) = []"
  by (simp add: requests_fetchMovies query_or_default_def endpoint_def unreserved_def
      leading_surrogate_def trailing_surrogate_def js_def)

section \<open>Properties of the result card\<close>

lemma split_first: "split d sep = takeWhile (\<lambda>c. c \<noteq> sep) d # tl (split d sep)"
  by (induction d) (auto split: list.splits)

lemma split_no_separator: "sep \<notin> set y \<Longrightarrow> split y sep = [y]"
  by (induction y) auto

lemma split_before_separator:
  "sep \<notin> set y \<Longrightarrow> split (y @ sep # rest) sep = y # split rest sep"
  by (induction y) auto

lemma year_first_piece:
  "d \<noteq> [] \<Longrightarrow> year (JStr d) = Inr (JStr (takeWhile (\<lambda>c. c \<noteq> 0x2D) d))"
proof -
  assume ne: "d \<noteq> []"
  obtain pieces where "split d 0x2D = takeWhile (\<lambda>c. c \<noteq> 0x2D) d # pieces"
    using split_first by blast
  with ne show ?thesis by (simp add: year_def)
qed

lemma year_absent: "absent release_date \<Longrightarrow> year release_date = Inr (JStr (js ''N/A''))"
  by (auto simp: absent_def year_def)

lemma digit_not_hyphen: "0x30 \<le> c \<Longrightarrow> c \<noteq> (0x2D :: 16 word)"
  by (auto simp: word_le_nat_alt)

lemma four_digits_no_hyphen: "four_digits y \<Longrightarrow> 0x2D \<notin> set y"
  using digit_not_hyphen by (auto simp: four_digits_def list_all_iff)

lemma four_digits_year:
  assumes "four_digits y" and "d = y \<or> d = y @ 0x2D # rest"
  shows "takeWhile (\<lambda>c. c \<noteq> 0x2D) d = y" and "first_four_digit_segment d = Some y"
    and "d \<noteq> []"
proof -
  have nh: "0x2D \<notin> set y" using assms(1) by (rule four_digits_no_hyphen)
  then have "takeWhile (\<lambda>c. c \<noteq> 0x2D) y = y"
    and "takeWhile (\<lambda>c. c \<noteq> 0x2D) (y @ 0x2D # rest) = y"
    by (auto simp: takeWhile_tail)
  with assms(2) show "takeWhile (\<lambda>c. c \<noteq> 0x2D) d = y" by auto
  from assms(2) nh have "\<exists>pieces. split d 0x2D = y # pieces"
    by (auto simp: split_no_separator split_before_separator)
  with assms(1) show "first_four_digit_segment d = Some y"
    by (auto simp: first_four_digit_segment_def)
  from assms show "d \<noteq> []" by (auto simp: four_digits_def)
qed

lemma primitive_valid_child: "primitive v \<Longrightarrow> valid_child v"
  by (cases v) simp_all

lemma poster_primitive: "primitive poster_path \<Longrightarrow> \<exists>src. poster nts poster_path = Inr src"
  by (cases poster_path) (simp_all add: poster_def)

lemma rating_number_or_falsy:
  "\<not> truthy vote_average \<or> (\<exists>n. vote_average = JNum n) \<Longrightarrow>
   \<exists>r. rating nts vote_average = Inr (JStr r)"
  by (auto simp: rating_def)

lemma year_valid_child: "year release_date = Inr y \<Longrightarrow> valid_child y"
  by (cases release_date) (auto simp: year_def split: if_splits list.splits)

text \<open>
  A movie whose title, poster path and language are primitive values and whose
  \<open>vote_average\<close> is a number or falsy is rendered whenever line 86 does not throw, with
  the year that line 86 gives.
\<close>

lemma render_card_year:
  assumes "get_prop movie (js ''title'') = Inr title" and "primitive title"
    and "get_prop movie (js ''poster_path'') = Inr poster_path" and "primitive poster_path"
    and "get_prop movie (js ''original_language'') = Inr original_language"
    and "primitive original_language"
    and "get_prop movie (js ''vote_average'') = Inr vote_average"
    and "\<not> truthy vote_average \<or> (\<exists>n. vote_average = JNum n)"
    and "get_prop movie (js ''release_date'') = Inr release_date"
    and "year release_date = Inr y"
  shows "\<exists>c. render_card nts movie = Inr c \<and> year_text c = y"
proof -
  obtain src where src: "poster nts poster_path = Inr src"
    using poster_primitive [OF assms(4)] by blast
  obtain r where r: "rating nts vote_average = Inr (JStr r)"
    using rating_number_or_falsy [OF assms(8)] by blast
  have card: "MovieCard nts movie =
      Inr \<lparr> poster_src = src, poster_alt = title, heading = title, rating_text = JStr r,
            language = original_language, year_text = y \<rparr>"
    using assms(1,3,5,7,9,10) src r by (simp add: MovieCard_def)
  show ?thesis
    using primitive_valid_child [OF assms(2)] primitive_valid_child [OF assms(6)]
      year_valid_child [OF assms(10)]
    by (simp add: render_card_def card)
qed

text \<open>
  C7, as amended: for a movie whose title, poster path and language are primitive values
  (not arrays or objects) and whose \<open>vote_average\<close> is a number or falsy, the card shows,
  when \<open>release_date\<close> is a non-empty string, the part of it before the first hyphen, all
  of it when it has no hyphen. When the date is four digits, alone or followed by a
  hyphen and the rest, that part is the four digits, the first 4-digit segment of the
  date. When \<open>release_date\<close> is missing or \<open>null\<close> the card shows \<open>N/A\<close>.
\<close>

theorem MovieCard_release_year:
  assumes "get_prop movie (js ''title'') = Inr title" and "primitive title"
    and "get_prop movie (js ''poster_path'') = Inr poster_path" and "primitive poster_path"
    and "get_prop movie (js ''original_language'') = Inr original_language"
    and "primitive original_language"
    and "get_prop movie (js ''vote_average'') = Inr vote_average"
    and "\<not> truthy vote_average \<or> (\<exists>n. vote_average = JNum n)"
    and "get_prop movie (js ''release_date'') = Inr release_date"
  shows "(\<forall>d. release_date = JStr d \<and> d \<noteq> [] \<longrightarrow>
            (\<exists>c. render_card nts movie = Inr c \<and>
                 year_text c = JStr (takeWhile (\<lambda>x. x \<noteq> 0x2D) d)))
         \<and> (\<forall>d y rest. release_date = JStr d \<and> four_digits y \<and> (d = y \<or> d = y @ 0x2D # rest) \<longrightarrow>
            (\<exists>c. render_card nts movie = Inr c \<and> year_text c = JStr y \<and>
                 first_four_digit_segment d = Some y))
         \<and> (absent release_date \<longrightarrow>
            (\<exists>c. render_card nts movie = Inr c \<and> year_text c = JStr (js ''N/A'')))"
proof (intro conjI allI impI)
  fix d
  assume "release_date = JStr d \<and> d \<noteq> []"
  then have "year release_date = Inr (JStr (takeWhile (\<lambda>x. x \<noteq> 0x2D) d))"
    by (simp add: year_first_piece)
  then show "\<exists>c. render_card nts movie = Inr c \<and>
      year_text c = JStr (takeWhile (\<lambda>x. x \<noteq> 0x2D) d)"
    by (rule render_card_year [OF assms])
next
  fix d y rest
  assume h: "release_date = JStr d \<and> four_digits y \<and> (d = y \<or> d = y @ 0x2D # rest)"
  then have fd: "four_digits y" and shape: "d = y \<or> d = y @ 0x2D # rest" by auto
  from h four_digits_year [OF fd shape]
  have "year release_date = Inr (JStr y)"
    by (simp add: year_first_piece)
  then have "\<exists>c. render_card nts movie = Inr c \<and> year_text c = JStr y"
    by (rule render_card_year [OF assms])
  with four_digits_year(2) [OF fd shape]
  show "\<exists>c. render_card nts movie = Inr c \<and> year_text c = JStr y \<and>
      first_four_digit_segment d = Some y"
    by blast
next
  assume "absent release_date"
  then have "year release_date = Inr (JStr (js ''N/A''))" by (rule year_absent)
  then show "\<exists>c. render_card nts movie = Inr c \<and> year_text c = JStr (js ''N/A'')"
    by (rule render_card_year [OF assms])
qed

theorem MovieCard_release_year_witness:
  "map_sum id year_text (render_card nts_example dated_movie) = Inr (JStr (js ''2024''))
   \<and> first_four_digit_segment (js ''2024-05-15'') = Some (js ''2024'')
   \<and> map_sum id year_text (render_card nts_example unrated_movie) = Inr (JStr (js ''N/A''))"
proof -
  have fd: "four_digits (js ''2024'')"
    by (simp add: four_digits_def js_def)
  have shape: "js ''2024-05-15'' = js ''2024'' @ 0x2D # js ''05-15''"
    by (simp add: js_def)
  have "\<forall>d y rest. JStr (js ''2024-05-15'') = JStr d \<and> four_digits y \<and>
        (d = y \<or> d = y @ 0x2D # rest) \<longrightarrow>
      (\<exists>c. render_card nts_example dated_movie = Inr c \<and> year_text c = JStr y \<and>
           first_four_digit_segment d = Some y)"
    using MovieCard_release_year [of dated_movie "JStr (js ''Heat'')" JUndefined JUndefined
        JUndefined "JStr (js ''2024-05-15'')" nts_example]
    by (simp add: dated_movie_def js_def)
  with fd shape have dated: "\<exists>c. render_card nts_example dated_movie = Inr c \<and>
      year_text c = JStr (js ''2024'') \<and>
      first_four_digit_segment (js ''2024-05-15'') = Some (js ''2024'')"
    by blast
  have "absent JUndefined \<longrightarrow>
      (\<exists>c. render_card nts_example unrated_movie = Inr c \<and> year_text c = JStr (js ''N/A''))"
    using MovieCard_release_year [of unrated_movie "JStr (js ''Heat'')" JUndefined JUndefined
        "JNum (Finite 0)" JUndefined nts_example]
    by (simp add: unrated_movie_def js_def)
  then have unrated: "\<exists>c. render_card nts_example unrated_movie = Inr c \<and>
      year_text c = JStr (js ''N/A'')"
    by (simp add: absent_def)
  from dated unrated show ?thesis by auto
qed

text \<open>
  C7 as first stated fails at a movie whose \<open>release_date\<close> is 15-05-2024: the first
  4-digit segment of that date is 2024, and the card shows 15. It fails as well where the
  card is not rendered although \<open>release_date\<close> is 2024-05-15: when \<open>vote_average\<close> is
  a string, line 64 throws; when \<open>poster_path\<close> is an object with a \<open>toString\<close> of its
  own, the template literal throws; when the title is an object, React refuses it.
\<close>

theorem day_first_date_renders_day:
  "first_four_digit_segment (js ''15-05-2024'') = Some (js ''2024'')
   \<and> map_sum id year_text (render_card nts_example day_first_movie) = Inr (JStr (js ''15''))
   \<and> render_card nts_example text_rated_movie = Inl TypeError
   \<and> render_card nts_example odd_poster_movie = Inl TypeError
   \<and> render_card nts_example object_titled_movie = Inl ReactChildError"
  by code_simp

text \<open>A \<open>release_date\<close> that is the empty string is falsy, and line 86 gives \<open>N/A\<close>.\<close>

lemma year_empty_string: "year (JStr []) = Inr (JStr (js ''N/A''))"
  by (simp add: year_def)

text \<open>
  The rating of a value from 0 up to \<open>10^21\<close>: with \<open>n\<close> the value times ten, rounded to
  the nearest integer and upwards from a half, \<open>toFixed(1)\<close> is the digits of \<open>n div 10\<close>,
  a point, and the digit \<open>n mod 10\<close>.
\<close>

lemma decimal_digits_nonempty: "decimal_digits n \<noteq> []"
  by (subst decimal_digits.simps) simp

lemma toFixed_one_decimal:
  assumes "0 \<le> x" and "x < 10 ^ 21" and "n = nat \<lfloor>x * 10 + 1 / 2\<rfloor>"
  shows "toFixed nts (Finite x) 1 =
           decimal_digits (n div 10) @ js ''.'' @ [of_nat (0x30 + n mod 10)]"
proof -
  have pos: "\<not> x < 0" "\<bar>x\<bar> = x" "\<not> 10 ^ 21 \<le> x" using assms by auto
  have unfold: "toFixed nts (Finite x) 1 =
      (let m = decimal_digits n;
           m1 = (if length m \<le> 1 then replicate (2 - length m) 0x30 @ m else m)
       in take (length m1 - 1) m1 @ js ''.'' @ drop (length m1 - 1) m1)"
    using pos assms(3) by (simp add: toFixed_def Let_def)
  show ?thesis
  proof (cases "n < 10")
    case True
    then have m: "decimal_digits n = [of_nat (0x30 + n)]"
      by (subst decimal_digits.simps) simp
    have z: "decimal_digits 0 = [0x30]"
      by (subst decimal_digits.simps) simp
    show ?thesis unfolding unfold using True by (simp add: m z Let_def)
  next
    case False
    then have m: "decimal_digits n = decimal_digits (n div 10) @ [of_nat (0x30 + n mod 10)]"
      by (subst decimal_digits.simps) simp
    have "length (decimal_digits (n div 10)) \<noteq> 0"
      using decimal_digits_nonempty by simp
    then show ?thesis unfolding unfold by (simp add: m Let_def)
  qed
qed

lemma decimal_digits_7: "decimal_digits 7 = js ''7''"
  by code_simp

lemma toFixed_near_7_5:
  assumes "745 / 100 \<le> x" and "x < 755 / 100"
  shows "toFixed nts (Finite x) 1 = js ''7.5''"
proof -
  have fl: "\<lfloor>x * 10 + 1 / 2\<rfloor> = 75"
    using assms by (intro floor_unique) auto
  have "toFixed nts (Finite x) 1 = decimal_digits (75 div 10) @ js ''.'' @ [of_nat (0x30 + 75 mod 10)]"
    using assms by (intro toFixed_one_decimal) (auto simp: fl)
  then show ?thesis by (simp add: decimal_digits_7 js_def)
qed

lemma rating_7543: "rating nts (JNum (Finite (7543 / 1000))) = Inr (JStr (js ''7.5''))"
  using toFixed_near_7_5 [of "7543 / 1000" nts]
  by (simp add: rating_def)

lemma rating_absent: "absent vote_average \<Longrightarrow> rating nts vote_average = Inr (JStr (js ''N/A''))"
  by (auto simp: absent_def rating_def)

lemma rating_nonzero:
  "x \<noteq> 0 \<Longrightarrow> rating nts (JNum (Finite x)) = Inr (JStr (toFixed nts (Finite x) 1))"
  by (simp add: rating_def)

text \<open>
  C6 at a movie whose \<open>vote_average\<close> is present and is 0: the card shows \<open>N/A\<close>, where the
  value formatted to one decimal place is \<open>0.0\<close>.
\<close>

theorem zero_rating_renders_NA:
  "get_prop unrated_movie (js ''vote_average'') = Inr (JNum (Finite 0))
   \<and> map_sum id rating_text (render_card nts_example unrated_movie) = Inr (JStr (js ''N/A''))
   \<and> toFixed nts_example (Finite 0) 1 = js ''0.0''"
  by code_simp

end
